theory Spec2Isabelle
  imports Main "HOL-Library.Sublist" "HOL-Library.AList" "HOL-Library.Word" "HOL-Library.Multiset"
begin

section \<open>The worldbook plugin: values, errors and strings\<close>

text \<open>
  A Python \<open>str\<close> is a sequence of Unicode code points and \<open>len\<close> counts code points,
  so a string is a list of code points here, not a list of bytes. \<open>ascii\<close> writes the
  ASCII literals of the source; the Chinese literals are given by their code points.
\<close>

type_synonym ustr = "nat list"

definition ascii :: "string \<Rightarrow> ustr" where
  "ascii s = map of_char s"

text \<open>
  What \<open>json.load\<close> returns: \<open>None\<close>, a \<open>bool\<close>, an \<open>int\<close>, a \<open>float\<close> (its 64 bits),
  a \<open>str\<close>, a \<open>list\<close> or a \<open>dict\<close>. A dict is its items in insertion order, the keys
  distinct; a lookup takes the first item of the key.
\<close>

datatype json = JNull | JBool bool | JInt int | JFloat "64 word" | JStr ustr
  | JList "json list" | JObj "(ustr \<times> json) list"

datatype py_error = TypeError | AttributeError

definition k_keywords :: ustr where "k_keywords = ascii ''keywords''"
definition k_content :: ustr where "k_content = ascii ''content''"
definition k_pet_name :: ustr where "k_pet_name = ascii ''pet_name''"
definition k_skill_info :: ustr where "k_skill_info = ascii ''skill_info''"

text \<open>\<open>obj.get(key, default)\<close>: only a dict has the method.\<close>

fun py_get :: "json \<Rightarrow> ustr \<Rightarrow> json \<Rightarrow> py_error + json" where
  "py_get (JObj kvs) k d = Inr (case map_of kvs k of None \<Rightarrow> d | Some v \<Rightarrow> v)"
| "py_get _ k d = Inl AttributeError"

text \<open>
  \<open>for x in v\<close>: a list gives its elements, a str its characters (each a str of length
  one), a dict its keys; anything else is not iterable.
\<close>

fun py_iter :: "json \<Rightarrow> py_error + json list" where
  "py_iter (JList xs) = Inr xs"
| "py_iter (JStr s) = Inr (map (\<lambda>c. JStr [c]) s)"
| "py_iter (JObj kvs) = Inr (map (\<lambda>kv. JStr (fst kv)) kvs)"
| "py_iter _ = Inl TypeError"

text \<open>
  \<open>key in v\<close> for a str \<open>key\<close>: a key of a dict, an element of a list (a str equals
  only a str), a substring of a str; on anything else a TypeError.
\<close>

fun py_in :: "ustr \<Rightarrow> json \<Rightarrow> py_error + bool" where
  "py_in k (JObj kvs) = Inr (k \<in> set (map fst kvs))"
| "py_in k (JList xs) = Inr (JStr k \<in> set xs)"
| "py_in k (JStr s) = Inr (sublist k s)"
| "py_in k _ = Inl TypeError"

section \<open>WorldbookManager\<close>

subsection \<open>find_entries_in_text\<close>

text \<open>
  The inner loop \<open>for keyword in ...: if keyword in text: ...; break\<close>: the answer is
  whether the entry is appended. \<open>keyword in text\<close> with \<open>text\<close> a str raises a
  TypeError for a keyword that is no str; a keyword after the first hit is never tested.
\<close>

fun keyword_hit :: "json list \<Rightarrow> ustr \<Rightarrow> py_error + bool" where
  "keyword_hit [] text = Inr False"
| "keyword_hit (JStr k # ks) text = (if sublist k text then Inr True else keyword_hit ks text)"
| "keyword_hit (_ # ks) text = Inl TypeError"

text \<open>What the loop runs over: \<open>entry_data.get("keywords", [])\<close>, iterated.\<close>

definition entry_keywords :: "json \<Rightarrow> py_error + json list" where
  "entry_keywords entry_data =
     (case py_get entry_data k_keywords (JList []) of Inl e \<Rightarrow> Inl e | Inr kws \<Rightarrow> py_iter kws)"

definition entry_hit :: "json \<Rightarrow> ustr \<Rightarrow> py_error + bool" where
  "entry_hit entry_data text =
     (case entry_keywords entry_data of Inl e \<Rightarrow> Inl e | Inr ks \<Rightarrow> keyword_hit ks text)"

text \<open>The outer loop over \<open>self.worldbook_data.items()\<close>, \<open>found\<close> the list so far.\<close>

fun find_loop :: "(ustr \<times> json) list \<Rightarrow> ustr \<Rightarrow> json list \<Rightarrow> py_error + json list" where
  "find_loop [] text found = Inr found"
| "find_loop ((entry_name, entry_data) # rest) text found =
     (case entry_hit entry_data text of
        Inl e \<Rightarrow> Inl e
      | Inr hit \<Rightarrow> find_loop rest text (if hit then found @ [entry_data] else found))"

definition find_entries_in_text :: "(ustr \<times> json) list \<Rightarrow> ustr \<Rightarrow> py_error + json list" where
  "find_entries_in_text worldbook_data text =
     (if text = [] then Inr [] else find_loop worldbook_data text [])"

subsection \<open>_load_worldbook\<close>

text \<open>
  A file found by \<open>rglob("*.json")\<close> is its stem and what \<open>open\<close> and \<open>json.load\<close>
  give: \<open>None\<close> when either raises, the parsed value otherwise. The data directory is
  the list of its files in the order \<open>rglob\<close> yields them, or \<open>None\<close> when the directory
  does not exist (\<open>rglob\<close> then yields nothing).
\<close>

type_synonym json_file = "ustr \<times> json option"

type_synonym data_dir = "json_file list option"

datatype diag = Loaded ustr | Skipped ustr | Failed ustr

text \<open>
  \<open>DATA_PATH.mkdir(parents=True, exist_ok=True)\<close>: makes the directory when it is not
  there and leaves one that is there alone. A \<open>mkdir\<close> that the file system refuses is
  not modelled.
\<close>

fun mkdir_data_path :: "data_dir \<Rightarrow> data_dir" where
  "mkdir_data_path None = Some []"
| "mkdir_data_path (Some files) = Some files"

fun rglob_json :: "data_dir \<Rightarrow> json_file list" where
  "rglob_json None = []"
| "rglob_json (Some files) = files"

text \<open>
  \<open>"keywords" in entry and "content" in entry and "pet_name" in entry\<close>: \<open>and\<close> stops at the
  first operand that is false.
\<close>

definition has_core_fields :: "json \<Rightarrow> py_error + bool" where
  "has_core_fields entry =
     (case py_in k_keywords entry of
        Inl e \<Rightarrow> Inl e
      | Inr False \<Rightarrow> Inr False
      | Inr True \<Rightarrow>
          (case py_in k_content entry of
             Inl e \<Rightarrow> Inl e
           | Inr False \<Rightarrow> Inr False
           | Inr True \<Rightarrow> py_in k_pet_name entry))"

text \<open>
  The body of the loop for one file, on the dict built so far and the lines printed so
  far. \<open>except Exception\<close> catches what \<open>open\<close>, \<open>json.load\<close> and the \<open>in\<close> tests raise.
  \<open>self.worldbook_data[stem] = entry\<close> keeps the place of a key already there and appends
  a new one.
\<close>

fun load_file :: "json_file \<Rightarrow> (ustr \<times> json) list \<times> diag list \<Rightarrow> (ustr \<times> json) list \<times> diag list" where
  "load_file (stem, None) (wb, out) = (wb, out @ [Failed stem])"
| "load_file (stem, Some entry) (wb, out) =
     (case has_core_fields entry of
        Inl e \<Rightarrow> (wb, out @ [Failed stem])
      | Inr True \<Rightarrow> (AList.update stem entry wb, out @ [Loaded stem])
      | Inr False \<Rightarrow> (wb, out @ [Skipped stem]))"

definition load_worldbook :: "data_dir \<Rightarrow> (ustr \<times> json) list \<times> diag list" where
  "load_worldbook dir = fold load_file (rglob_json dir) ([], [])"

text \<open>\<open>WorldbookManager.__init__\<close>: the directory after it, and the data loaded.\<close>

definition manager_init :: "data_dir \<Rightarrow> data_dir \<times> (ustr \<times> json) list" where
  "manager_init dir = (let dir' = mkdir_data_path dir in (dir', fst (load_worldbook dir')))"

section \<open>WorldbookPlugin\<close>

text \<open>
  The plugin's state: the manager's dict and the staging dict \<open>lore_to_inject\<close> from a
  session id to the list staged for it. Each staged list is made by one call of
  \<open>find_entries_in_text\<close> and held by one session only, and no entry is ever written
  to, so values stand for the objects.
\<close>

record plugin =
  worldbook_data :: "(ustr \<times> json) list"
  lore_to_inject :: "ustr \<rightharpoonup> json list"

subsection \<open>on_any_message\<close>

text \<open>A raise leaves the state as it is at that point: \<open>Inl\<close> holds the error and that state.\<close>

definition on_any_message :: "plugin \<Rightarrow> ustr \<Rightarrow> ustr \<Rightarrow> (py_error \<times> plugin) + plugin" where
  "on_any_message self session_id user_message =
     (case find_entries_in_text (worldbook_data self) user_message of
        Inl e \<Rightarrow> Inl (e, self)
      | Inr found_lore \<Rightarrow>
          (if found_lore \<noteq> [] then
             Inr (self\<lparr>lore_to_inject := (lore_to_inject self)(session_id \<mapsto> found_lore)\<rparr>)
           else if session_id \<in> dom (lore_to_inject self) then
             Inr (self\<lparr>lore_to_inject := (lore_to_inject self)(session_id := None)\<rparr>)
           else Inr self))"

subsection \<open>The text of the prompt\<close>

text \<open>The literals of \<open>inject_worldbook_context\<close>, by code point.\<close>

definition s_header :: ustr where
  "s_header = ascii ''['' @ [31995, 32479, 25351, 20196, 65306, 35831, 26681, 25454, 20197, 19979, 32972, 26223, 30693, 35782, 26469, 29702, 35299, 21644, 22238, 22797, 29992, 25143, 30340, 25552, 38382, 12290, 37325, 35201, 35268, 21017, 65306, 19968, 20010, 23456, 29289, 21482, 33021, 21516, 26102, 25658, 24102, 19968, 31181, 34880, 33033, 25928, 26524, 21644, 22235, 20010, 25216, 33021, 12290] @ ascii '']'' @ [10]"

definition s_block_begin :: ustr where
  "s_block_begin = ascii ''--- '' @ [32972, 26223, 30693, 35782] @ ascii '' ---'' @ [10]"

definition s_pet :: ustr where
  "s_pet = [23456, 29289, 65306]"

definition s_unknown :: ustr where
  "s_unknown = [26410, 30693]"

definition s_power :: ustr where
  "s_power = [23041, 21147] @ ascii '': ''"

definition s_power_none :: ustr where
  "s_power_none = [23041, 21147] @ ascii '': ---''"

definition s_pp :: ustr where
  "s_pp = ascii ''PP: ''"

definition s_priority :: ustr where
  "s_priority = [20808, 25163, 31561, 32423] @ ascii '': ''"

definition s_type :: ustr where
  "s_type = [23646, 24615] @ ascii '': ''"

definition s_category :: ustr where
  "s_category = [31867, 22411] @ ascii '': ''"

definition s_skill_data :: ustr where
  "s_skill_data = [25216, 33021, 25968, 25454, 65306]"

definition s_no_content :: ustr where
  "s_no_content = [26080, 20869, 23481]"

definition s_block_end :: ustr where
  "s_block_end = ascii ''--- '' @ [32972, 26223, 30693, 35782, 32467, 26463] @ ascii '' ---'' @ [10]"

definition s_sep :: ustr where
  "s_sep = ascii '' | ''"

definition s_nl :: ustr where
  "s_nl = [10]"

definition s_question :: ustr where
  "s_question = ascii ''?''"

definition k_power :: ustr where "k_power = ascii ''power''"
definition k_pp :: ustr where "k_pp = ascii ''pp''"
definition k_priority :: ustr where "k_priority = ascii ''priority''"
definition k_type :: ustr where "k_type = ascii ''type''"
definition k_category :: ustr where "k_category = ascii ''category''"

text \<open>
  What an f-string puts for a value, \<open>str(v)\<close>: a str is itself, \<open>None\<close>, a bool and an
  int are as below. For a float, a list and a dict it is Python's \<open>repr\<close>, which is not
  code of the plugin: it is the parameter \<open>R\<close>.
\<close>

fun digits :: "nat \<Rightarrow> ustr" where
  "digits n = (if n < 10 then [48 + n] else digits (n div 10) @ [48 + n mod 10])"

declare digits.simps [simp del]

definition str_int :: "int \<Rightarrow> ustr" where
  "str_int i = (if i < 0 then 45 # digits (nat (- i)) else digits (nat i))"

fun py_str :: "(json \<Rightarrow> ustr) \<Rightarrow> json \<Rightarrow> ustr" where
  "py_str R (JStr s) = s"
| "py_str R JNull = ascii ''None''"
| "py_str R (JBool b) = (if b then ascii ''True'' else ascii ''False'')"
| "py_str R (JInt i) = str_int i"
| "py_str R v = R v"

text \<open>\<open>len(v)\<close>: of a str, a list or a dict; a TypeError on anything else.\<close>

fun py_len :: "json \<Rightarrow> py_error + nat" where
  "py_len (JStr s) = Inr (length s)"
| "py_len (JList xs) = Inr (length xs)"
| "py_len (JObj kvs) = Inr (length kvs)"
| "py_len _ = Inl TypeError"

subsection \<open>The sort\<close>

text \<open>The key \<open>lambda entry: len(entry.get('content', ''))\<close>.\<close>

definition content_len :: "json \<Rightarrow> py_error + nat" where
  "content_len entry =
     (case py_get entry k_content (JStr []) of Inl e \<Rightarrow> Inl e | Inr v \<Rightarrow> py_len v)"

text \<open>
  \<open>list.sort(key=f, reverse=True)\<close>: the keys are all computed first, and a raise there
  leaves the list as it was; then the list is reversed, sorted stably by ascending key
  and reversed again. The keys are lengths, so comparing them never raises.
\<close>

fun sort_keys :: "json list \<Rightarrow> py_error + nat list" where
  "sort_keys [] = Inr []"
| "sort_keys (entry # rest) =
     (case content_len entry of
        Inl e \<Rightarrow> Inl e
      | Inr k \<Rightarrow> (case sort_keys rest of Inl e \<Rightarrow> Inl e | Inr ks \<Rightarrow> Inr (k # ks)))"

definition py_sort_reverse :: "('a \<Rightarrow> nat) \<Rightarrow> 'a list \<Rightarrow> 'a list" where
  "py_sort_reverse f xs = rev (sort_key f (rev xs))"

definition sort_lore :: "json list \<Rightarrow> py_error + json list" where
  "sort_lore lore_to_add =
     (case sort_keys lore_to_add of
        Inl e \<Rightarrow> Inl e
      | Inr ks \<Rightarrow> Inr (map snd (py_sort_reverse fst (zip ks lore_to_add))))"

subsection \<open>inject_worldbook_context\<close>

text \<open>The line for \<open>skill_info\<close>: \<open>info.get\<close> needs a dict.\<close>

fun skill_info_line :: "(json \<Rightarrow> ustr) \<Rightarrow> json \<Rightarrow> py_error + ustr" where
  "skill_info_line R (JObj info) =
     (let get = (\<lambda>k d. case map_of info k of None \<Rightarrow> d | Some v \<Rightarrow> v);
          power_str = (if get k_power JNull \<noteq> JNull then s_power @ py_str R (get k_power JNull)
                       else s_power_none);
          pp_str = s_pp @ py_str R (get k_pp (JStr s_question));
          priority_str = s_priority @ py_str R (get k_priority (JStr s_question));
          type_str = s_type @ py_str R (get k_type (JStr s_question));
          category_str = s_category @ py_str R (get k_category (JStr s_question))
      in Inr (s_skill_data @ power_str @ s_sep @ pp_str @ s_sep @ priority_str @ s_sep
              @ type_str @ s_sep @ category_str @ s_nl))"
| "skill_info_line R _ = Inl AttributeError"

text \<open>What one pass of \<open>for entry in lore_to_add\<close> appends to \<open>lore_prompt\<close>.\<close>

fun format_entry :: "(json \<Rightarrow> ustr) \<Rightarrow> json \<Rightarrow> py_error + ustr" where
  "format_entry R (JObj entry) =
     (let get = (\<lambda>k d. case map_of entry k of None \<Rightarrow> d | Some v \<Rightarrow> v);
          pet = s_block_begin @ s_pet @ py_str R (get k_pet_name (JStr s_unknown)) @ s_nl;
          body = py_str R (get k_content (JStr s_no_content)) @ s_nl @ s_block_end
      in case map_of entry k_skill_info of
           None \<Rightarrow> Inr (pet @ body)
         | Some info \<Rightarrow>
             (case skill_info_line R info of
                Inl e \<Rightarrow> Inl e
              | Inr line \<Rightarrow> Inr (pet @ line @ s_nl @ body)))"
| "format_entry R _ = Inl AttributeError"

fun lore_loop :: "(json \<Rightarrow> ustr) \<Rightarrow> json list \<Rightarrow> ustr \<Rightarrow> py_error + ustr" where
  "lore_loop R [] lore_prompt = Inr lore_prompt"
| "lore_loop R (entry # rest) lore_prompt =
     (case format_entry R entry of
        Inl e \<Rightarrow> Inl e
      | Inr block \<Rightarrow> lore_loop R rest (lore_prompt @ block))"

text \<open>The request: its \<open>system_prompt\<close>, and whatever else it holds.\<close>

record provider_request =
  system_prompt :: ustr

text \<open>
  A raise in the sort leaves everything as it was. A raise in the loop comes after the
  sort, which is in place: the staged list is then the sorted one, still staged, and
  the request is untouched.
\<close>

definition inject_worldbook_context ::
  "(json \<Rightarrow> ustr) \<Rightarrow> plugin \<Rightarrow> ustr \<Rightarrow> 'r provider_request_scheme
     \<Rightarrow> (py_error \<times> plugin \<times> 'r provider_request_scheme) + (plugin \<times> 'r provider_request_scheme)" where
  "inject_worldbook_context R self session_id req =
     (case lore_to_inject self session_id of
        None \<Rightarrow> Inr (self, req)
      | Some lore_to_add \<Rightarrow>
          (case sort_lore lore_to_add of
             Inl e \<Rightarrow> Inl (e, self, req)
           | Inr lore_sorted \<Rightarrow>
               (case lore_loop R lore_sorted s_header of
                  Inl e \<Rightarrow>
                    Inl (e, self\<lparr>lore_to_inject := (lore_to_inject self)(session_id \<mapsto> lore_sorted)\<rparr>, req)
                | Inr lore_prompt \<Rightarrow>
                    Inr (self\<lparr>lore_to_inject := (lore_to_inject self)(session_id := None)\<rparr>,
                         req\<lparr>system_prompt := lore_prompt @ s_nl @ system_prompt req\<rparr>))))"

subsection \<open>reload_worldbook\<close>

text \<open>
  The command calls \<open>_load_worldbook\<close> only; the directory is not touched. The result
  is the directory, the plugin and whether the success message is sent.
\<close>

definition reload_worldbook :: "plugin \<Rightarrow> data_dir \<Rightarrow> data_dir \<times> plugin \<times> bool" where
  "reload_worldbook self dir = (dir, self\<lparr>worldbook_data := fst (load_worldbook dir)\<rparr>, True)"

section \<open>Vocabulary of the properties\<close>

text \<open>
  A record has a keyword in a text when the iteration over its keywords yields a str
  that is a substring of the text.
\<close>

fun keyword_in :: "ustr \<Rightarrow> json \<Rightarrow> bool" where
  "keyword_in text (JStr k) = sublist k text"
| "keyword_in text _ = False"

definition has_keyword_in :: "json \<Rightarrow> ustr \<Rightarrow> bool" where
  "has_keyword_in entry text =
     (case entry_keywords entry of Inl e \<Rightarrow> False | Inr ks \<Rightarrow> list_ex (keyword_in text) ks)"

text \<open>
  A record as the data model has it, for the search: a dict whose keywords, when there,
  iterate to strs only (a list of strs; also a str or a dict).
\<close>

fun is_str :: "json \<Rightarrow> bool" where
  "is_str (JStr s) = True"
| "is_str _ = False"

definition typed_keywords :: "json \<Rightarrow> bool" where
  "typed_keywords entry =
     (case entry_keywords entry of Inl e \<Rightarrow> False | Inr ks \<Rightarrow> list_all is_str ks)"

text \<open>
  A record that the injection can print: a dict whose content has a length and whose
  \<open>skill_info\<close>, when there, is a dict.
\<close>

fun is_dict :: "json \<Rightarrow> bool" where
  "is_dict (JObj kvs) = True"
| "is_dict _ = False"

fun printable :: "json \<Rightarrow> bool" where
  "printable (JObj entry) =
     ((case content_len (JObj entry) of Inl e \<Rightarrow> False | Inr n \<Rightarrow> True)
      \<and> (case map_of entry k_skill_info of None \<Rightarrow> True | Some info \<Rightarrow> is_dict info))"
| "printable _ = False"

text \<open>The sort key as a number: the length of the content where it has one.\<close>

definition content_size :: "json \<Rightarrow> nat" where
  "content_size entry = (case content_len entry of Inl e \<Rightarrow> 0 | Inr n \<Rightarrow> n)"

text \<open>The plugin a handler leaves behind, whether it returned or raised.\<close>

fun after_message :: "(py_error \<times> plugin) + plugin \<Rightarrow> plugin" where
  "after_message (Inl (e, self')) = self'"
| "after_message (Inr self') = self'"

fun after_inject :: "(py_error \<times> plugin \<times> 'r) + (plugin \<times> 'r) \<Rightarrow> plugin" where
  "after_inject (Inl (e, self', req')) = self'"
| "after_inject (Inr (self', req')) = self'"

section \<open>Sample data\<close>

text \<open>
  The record \<open>fire_blast\<close> of the specification's example, with the message
  \<open>ex_message\<close> that holds its first keyword.
\<close>

definition fire_blast :: json where
  "fire_blast = JObj
     [(k_keywords, JList [JStr [28779, 28976], JStr [28872, 28976, 29699]]),
      (k_content, JStr [39640, 23041, 21147, 29305, 27530, 28779, 23646, 24615, 25915, 20987, 25216, 33021]),
      (k_pet_name, JStr [23567, 28779, 40857]),
      (k_skill_info, JObj [(k_power, JInt 110), (k_pp, JInt 5), (k_priority, JInt 0),
                           (k_type, JStr [28779]), (k_category, JStr [29305, 27530])])]"

definition ex_message :: ustr where
  "ex_message = [25105, 24819, 23398, 28779, 28976, 25216, 33021]"

definition ex_dir :: data_dir where
  "ex_dir = Some [(ascii ''fire_blast'', Some fire_blast)]"

definition ex_plugin :: plugin where
  "ex_plugin = \<lparr>worldbook_data = fst (load_worldbook ex_dir), lore_to_inject = Map.empty\<rparr>"

definition ex_session :: ustr where
  "ex_session = ascii ''s1''"

definition ex_request :: provider_request where
  "ex_request = \<lparr>system_prompt = ascii ''You are a helpful guide.''\<rparr>"

text \<open>Three records with contents of lengths 10, 10 and 5.\<close>

definition rec_A :: json where
  "rec_A = JObj [(k_keywords, JList [JStr (ascii ''alpha'')]),
                 (k_content, JStr (ascii ''aaaaaaaaaa'')), (k_pet_name, JStr (ascii ''A''))]"

definition rec_B :: json where
  "rec_B = JObj [(k_keywords, JList [JStr (ascii ''beta''), JStr (ascii ''alpha'')]),
                 (k_content, JStr (ascii ''bbbbbbbbbb'')), (k_pet_name, JStr (ascii ''B''))]"

definition rec_C :: json where
  "rec_C = JObj [(k_keywords, JList [JStr (ascii ''gamma'')]),
                 (k_content, JStr (ascii ''ccccc'')), (k_pet_name, JStr (ascii ''C''))]"

text \<open>A record with the empty keyword, and one whose keywords are a number.\<close>

definition rec_empty_keyword :: json where
  "rec_empty_keyword = JObj [(k_keywords, JList [JStr []]),
                             (k_content, JStr (ascii ''x'')), (k_pet_name, JStr (ascii ''E''))]"

definition rec_number_keywords :: json where
  "rec_number_keywords = JObj [(k_keywords, JInt 5),
                               (k_content, JStr (ascii ''x'')), (k_pet_name, JStr (ascii ''N''))]"

text \<open>A record without \<open>pet_name\<close>, and a store of the three records.\<close>

definition rec_no_pet_name :: json where
  "rec_no_pet_name = JObj [(k_keywords, JList [JStr (ascii ''alpha'')]),
                           (k_content, JStr (ascii ''x''))]"

text \<open>Two values without any field: the list of the three names, and a str that holds them.\<close>

definition rec_names_list :: json where
  "rec_names_list = JList [JStr (ascii ''keywords''), JStr (ascii ''content''), JStr (ascii ''pet_name'')]"

definition rec_names_str :: json where
  "rec_names_str = JStr (ascii ''keywords content pet_name'')"

definition ex_abc :: "(ustr \<times> json) list" where
  "ex_abc = [(ascii ''a'', rec_A), (ascii ''b'', rec_B), (ascii ''c'', rec_C)]"

text \<open>
  The plugin with \<open>fire_blast\<close> staged for the session, the block that the injection
  makes of it, and a plugin with a second session staged.
\<close>

definition ex_staged :: plugin where
  "ex_staged = ex_plugin\<lparr>lore_to_inject := [ex_session \<mapsto> [fire_blast]]\<rparr>"

definition ex_block :: ustr where
  "ex_block = s_header @ s_block_begin
     @ s_pet @ [23567, 28779, 40857] @ s_nl
     @ s_skill_data @ s_power @ ascii ''110'' @ s_sep @ s_pp @ ascii ''5'' @ s_sep
       @ s_priority @ ascii ''0'' @ s_sep @ s_type @ [28779] @ s_sep
       @ s_category @ [29305, 27530] @ s_nl
     @ s_nl
     @ [39640, 23041, 21147, 29305, 27530, 28779, 23646, 24615, 25915, 20987, 25216, 33021] @ s_nl
     @ s_block_end"

definition ex_two :: plugin where
  "ex_two = ex_plugin\<lparr>lore_to_inject := [ex_session \<mapsto> [fire_blast], ascii ''s2'' \<mapsto> [rec_A]]\<rparr>"

section \<open>Evaluation of the samples\<close>

lemmas key_defs = k_keywords_def k_content_def k_pet_name_def k_skill_info_def k_power_def
  k_pp_def k_priority_def k_type_def k_category_def ascii_def

lemmas sample_defs = ex_dir_def ex_plugin_def ex_session_def ex_request_def ex_message_def
  fire_blast_def rec_A_def rec_B_def rec_C_def rec_empty_keyword_def rec_number_keywords_def
  rec_no_pet_name_def ex_abc_def rec_names_list_def rec_names_str_def

lemmas find_defs = find_entries_in_text_def entry_hit_def entry_keywords_def has_keyword_in_def
  typed_keywords_def

lemmas text_defs = s_header_def s_block_begin_def s_pet_def s_unknown_def s_power_def
  s_power_none_def s_pp_def s_priority_def s_type_def s_category_def s_skill_data_def
  s_no_content_def s_block_end_def s_sep_def s_nl_def s_question_def

section \<open>The search\<close>

lemma keyword_hit_Inr:
  "keyword_hit ks text = Inr hit \<Longrightarrow> hit = list_ex (keyword_in text) ks"
  by (induction ks "text" rule: keyword_hit.induct) (auto split: if_splits)

lemma keyword_hit_typed:
  "list_all is_str ks \<Longrightarrow> \<exists>hit. keyword_hit ks text = Inr hit"
proof (induction ks)
  case Nil
  show ?case by auto
next
  case (Cons k ks)
  then show ?case by (cases k) auto
qed

lemma entry_hit_Inr:
  "entry_hit entry text = Inr hit \<Longrightarrow> hit = has_keyword_in entry text"
  by (auto simp: entry_hit_def has_keyword_in_def split: sum.splits dest: keyword_hit_Inr)

lemma entry_hit_typed:
  "typed_keywords entry \<Longrightarrow> \<exists>hit. entry_hit entry text = Inr hit"
  by (auto simp: entry_hit_def typed_keywords_def split: sum.splits intro: keyword_hit_typed)

lemma find_loop_Inr:
  "find_loop wb text found = Inr res
     \<Longrightarrow> res = found @ filter (\<lambda>entry. has_keyword_in entry text) (map snd wb)"
proof (induction wb "text" found rule: find_loop.induct)
  case (1 t found)
  then show ?case by simp
next
  case (2 entry_name entry_data rest t found)
  from "2.prems" obtain hit where hit: "entry_hit entry_data t = Inr hit"
    by (auto split: sum.splits)
  with "2.prems" have "find_loop rest t (if hit then found @ [entry_data] else found) = Inr res"
    by simp
  from "2.IH" [OF hit this] entry_hit_Inr [OF hit] show ?case
    by simp
qed

lemma find_loop_typed:
  "\<forall>p\<in>set wb. typed_keywords (snd p) \<Longrightarrow> \<exists>res. find_loop wb text found = Inr res"
proof (induction wb "text" found rule: find_loop.induct)
  case (1 t found)
  show ?case by simp
next
  case (2 entry_name entry_data rest t found)
  from "2.prems" obtain hit where hit: "entry_hit entry_data t = Inr hit"
    using entry_hit_typed [of entry_data t] by auto
  from "2.prems" have "\<forall>p\<in>set rest. typed_keywords (snd p)"
    by simp
  from "2.IH" [OF hit this] hit show ?case
    by simp
qed


lemma find_entries_subset:
  "find_entries_in_text wb text = Inr res \<Longrightarrow> set res \<subseteq> snd ` set wb"
  by (auto simp: find_entries_in_text_def split: if_splits dest!: find_loop_Inr)






text \<open>
  C8, as the code has it: \<open>on_any_message\<close> has no handler of its own, so what
  \<open>find_entries_in_text\<close> raises comes out of it. A record with all three fields is
  loaded whatever the values of the fields are, and keywords that are a number raise a
  TypeError at the first message that is not empty. The handler returns when every
  stored record is a dict whose keywords iterate to strs, and for the empty message on
  any store.
\<close>

theorem on_any_message_returns:
  assumes "(\<forall>p\<in>set (worldbook_data self). typed_keywords (snd p)) \<or> user_message = []"
  shows "\<exists>self'. on_any_message self session_id user_message = Inr self'"
proof -
  have "\<exists>found. find_entries_in_text (worldbook_data self) user_message = Inr found"
  proof (cases "user_message = []")
    case True
    then show ?thesis by (simp add: find_entries_in_text_def)
  next
    case False
    with assms show ?thesis
      using find_loop_typed [of "worldbook_data self" user_message "[]"]
      by (simp add: find_entries_in_text_def)
  qed
  then obtain found where "find_entries_in_text (worldbook_data self) user_message = Inr found" ..
  then show ?thesis
    by (cases "found = []"; cases "session_id \<in> dom (lore_to_inject self)")
      (simp_all add: on_any_message_def)
qed

theorem on_any_message_returns_witness:
  "list_all (\<lambda>p. typed_keywords (snd p)) (worldbook_data ex_plugin)
   \<and> on_any_message ex_plugin ex_session ex_message
       = Inr (ex_plugin\<lparr>lore_to_inject := [ex_session \<mapsto> [fire_blast]]\<rparr>)"
  using on_any_message_returns [of ex_plugin ex_message ex_session]
  by (simp add: on_any_message_def load_worldbook_def has_core_fields_def find_defs
      sample_defs key_defs sublist_code)

theorem on_any_message_raises_counterexample:
  "fst (load_worldbook (Some [(ascii ''n'', Some rec_number_keywords)]))
     = [(ascii ''n'', rec_number_keywords)]
   \<and> on_any_message
        \<lparr>worldbook_data = [(ascii ''n'', rec_number_keywords)], lore_to_inject = Map.empty\<rparr>
        ex_session (ascii ''a'')
       = Inl (TypeError,
              \<lparr>worldbook_data = [(ascii ''n'', rec_number_keywords)], lore_to_inject = Map.empty\<rparr>)"
  by (simp add: on_any_message_def load_worldbook_def has_core_fields_def find_defs
      sample_defs key_defs sublist_code)

section \<open>The sort\<close>

lemma sort_keys_Inr:
  "sort_keys lore = Inr ks
     \<Longrightarrow> ks = map content_size lore \<and> (\<forall>entry\<in>set lore. content_len entry = Inr (content_size entry))"
  by (induction lore arbitrary: ks) (auto simp: content_size_def split: sum.splits)

lemma sort_keys_returns:
  "\<forall>entry\<in>set lore. \<exists>n. content_len entry = Inr n \<Longrightarrow> \<exists>ks. sort_keys lore = Inr ks"
  by (induction lore) auto

lemma insort_key_decorate:
  "insort_key fst (f a, a) (map (\<lambda>x. (f x, x)) ys) = map (\<lambda>x. (f x, x)) (insort_key f a ys)"
  by (induction ys) simp_all

lemma sort_key_decorate:
  "sort_key fst (map (\<lambda>x. (f x, x)) xs) = map (\<lambda>x. (f x, x)) (sort_key f xs)"
  by (induction xs) (simp_all add: insort_key_decorate)

lemma py_sort_reverse_decorate:
  "map snd (py_sort_reverse fst (zip (map f xs) xs)) = py_sort_reverse f xs"
proof -
  define g where "g = (\<lambda>x. (f x, x))"
  have zip: "zip (map f xs) xs = map g xs"
    unfolding g_def by (induction xs) simp_all
  have "py_sort_reverse fst (map g xs) = rev (sort_key fst (map g (rev xs)))"
    by (simp only: py_sort_reverse_def rev_map)
  also have "\<dots> = rev (map g (sort_key f (rev xs)))"
    unfolding g_def by (simp only: sort_key_decorate)
  also have "\<dots> = map g (py_sort_reverse f xs)"
    by (simp only: py_sort_reverse_def rev_map)
  finally have "map snd (py_sort_reverse fst (map g xs)) = map snd (map g (py_sort_reverse f xs))"
    by simp
  also have "\<dots> = py_sort_reverse f xs"
    by (simp add: g_def comp_def)
  finally show ?thesis
    by (simp only: zip)
qed

lemma sort_lore_Inr:
  assumes "sort_lore lore = Inr lore_sorted"
  shows "lore_sorted = py_sort_reverse content_size lore"
    and "\<forall>entry\<in>set lore. content_len entry = Inr (content_size entry)"
proof -
  from assms obtain ks where ks: "sort_keys lore = Inr ks"
    by (auto simp: sort_lore_def split: sum.splits)
  from sort_keys_Inr [OF ks] show "\<forall>entry\<in>set lore. content_len entry = Inr (content_size entry)"
    by simp
  from sort_keys_Inr [OF ks] assms ks show "lore_sorted = py_sort_reverse content_size lore"
    by (auto simp: sort_lore_def py_sort_reverse_decorate)
qed

lemma sort_lore_returns:
  "\<forall>entry\<in>set lore. \<exists>n. content_len entry = Inr n \<Longrightarrow> \<exists>lore_sorted. sort_lore lore = Inr lore_sorted"
  using sort_keys_returns [of lore] by (auto simp: sort_lore_def)

lemma mset_py_sort_reverse: "mset (py_sort_reverse f xs) = mset xs"
  by (simp add: py_sort_reverse_def)

lemma py_sort_reverse_descending:
  "i < j \<Longrightarrow> j < length (py_sort_reverse f xs)
     \<Longrightarrow> f (py_sort_reverse f xs ! j) \<le> f (py_sort_reverse f xs ! i)"
proof -
  assume ij: "i < j" and j: "j < length (py_sort_reverse f xs)"
  have "sorted (rev (map f (py_sort_reverse f xs)))"
    by (simp add: py_sort_reverse_def rev_map)
  then have "map f (py_sort_reverse f xs) ! j \<le> map f (py_sort_reverse f xs) ! i"
    using ij j by (simp add: sorted_rev_iff_nth_mono)
  with ij j show ?thesis
    by simp
qed

lemma py_sort_reverse_stable:
  "filter (\<lambda>x. f x = k) (py_sort_reverse f xs) = filter (\<lambda>x. f x = k) xs"
proof -
  have "filter (\<lambda>x. f x = k) (py_sort_reverse f xs)
          = rev (filter (\<lambda>x. f x = k) (sort_key f (rev xs)))"
    by (simp add: py_sort_reverse_def rev_filter)
  also have "\<dots> = rev (filter (\<lambda>x. f x = k) (rev xs))"
    by (simp only: sort_key_stable)
  also have "\<dots> = filter (\<lambda>x. f x = k) xs"
    by (simp add: rev_filter)
  finally show ?thesis .
qed

lemma sort_lore_set: "sort_lore lore = Inr lore_sorted \<Longrightarrow> set lore_sorted = set lore"
  using sort_lore_Inr(1) [of lore lore_sorted] mset_py_sort_reverse [of content_size lore]
  by (metis set_mset_mset)

section \<open>The injection\<close>

lemma inject_staged_Inr:
  assumes "lore_to_inject self sid = Some lore"
    and "inject_worldbook_context R self sid req = Inr (self', req')"
  shows "\<exists>lore_sorted lore_prompt.
           sort_lore lore = Inr lore_sorted
           \<and> lore_loop R lore_sorted s_header = Inr lore_prompt
           \<and> self' = self\<lparr>lore_to_inject := (lore_to_inject self)(sid := None)\<rparr>
           \<and> req' = req\<lparr>system_prompt := lore_prompt @ s_nl @ system_prompt req\<rparr>"
  using assms by (auto simp: inject_worldbook_context_def split: sum.splits)

lemma lore_loop_Inr:
  "lore_loop R entries acc = Inr lore_prompt
     \<Longrightarrow> \<exists>blocks. list_all2 (\<lambda>entry block. format_entry R entry = Inr block) entries blocks
                  \<and> lore_prompt = acc @ concat blocks"
proof (induction entries arbitrary: acc)
  case Nil
  then show ?case by simp
next
  case (Cons entry rest)
  from Cons.prems obtain block where block: "format_entry R entry = Inr block"
    and rest: "lore_loop R rest (acc @ block) = Inr lore_prompt"
    by (auto split: sum.splits)
  from Cons.IH [OF rest] obtain blocks
    where "list_all2 (\<lambda>entry block. format_entry R entry = Inr block) rest blocks"
      and "lore_prompt = (acc @ block) @ concat blocks"
    by blast
  with block have "list_all2 (\<lambda>entry block. format_entry R entry = Inr block) (entry # rest) (block # blocks)
      \<and> lore_prompt = acc @ concat (block # blocks)"
    by simp
  then show ?case by blast
qed

lemma format_entry_returns:
  assumes "printable entry"
  shows "\<exists>block. format_entry R entry = Inr block"
proof (cases entry)
  case (JObj kvs)
  show ?thesis
  proof (cases "map_of kvs k_skill_info")
    case None
    with JObj show ?thesis by (simp add: Let_def)
  next
    case (Some info)
    with JObj assms have "is_dict info" by simp
    then obtain ikvs where "info = JObj ikvs" by (cases info) auto
    with JObj Some show ?thesis by (simp add: Let_def)
  qed
qed (use assms in auto)

lemma lore_loop_returns:
  "\<forall>entry\<in>set entries. printable entry \<Longrightarrow> \<exists>lore_prompt. lore_loop R entries acc = Inr lore_prompt"
proof (induction entries arbitrary: acc)
  case Nil
  show ?case by simp
next
  case (Cons entry rest)
  then obtain block where "format_entry R entry = Inr block"
    using format_entry_returns [of entry R] by auto
  with Cons show ?case by simp
qed

lemma printable_content_len: "printable entry \<Longrightarrow> \<exists>n. content_len entry = Inr n"
  by (cases entry) (auto split: sum.splits)

lemma inject_staged_returns:
  assumes "lore_to_inject self sid = Some lore" and "\<forall>entry\<in>set lore. printable entry"
  shows "\<exists>self' req'. inject_worldbook_context R self sid req = Inr (self', req')"
proof -
  from assms(2) obtain lore_sorted where s: "sort_lore lore = Inr lore_sorted"
    using sort_lore_returns [of lore] printable_content_len by blast
  with assms(2) have "\<forall>entry\<in>set lore_sorted. printable entry"
    by (simp add: sort_lore_set)
  then obtain lore_prompt where "lore_loop R lore_sorted s_header = Inr lore_prompt"
    using lore_loop_returns by blast
  with s assms(1) show ?thesis
    by (simp add: inject_worldbook_context_def)
qed

text \<open>
  C2: the sort of \<open>inject_worldbook_context\<close>. When it returns, the sorted list is a
  rearrangement of the staged one, the content lengths go down along it, and the records
  of any one content length are in the order they had in the staged list (the sort is
  stable). The key of a record is the length in characters of its content when that is
  a str. The sort returns when every record has a content with a length, and the prompt
  of a request that is served is made from the sorted list.
\<close>

theorem sort_lore_stable_descending:
  assumes "sort_lore lore = Inr lore_sorted"
  shows "mset lore_sorted = mset lore
       \<and> (\<forall>i j. i < j \<and> j < length lore_sorted \<longrightarrow>
              content_size (lore_sorted ! j) \<le> content_size (lore_sorted ! i))
       \<and> (\<forall>n. filter (\<lambda>entry. content_size entry = n) lore_sorted
                = filter (\<lambda>entry. content_size entry = n) lore)
       \<and> (\<forall>entry\<in>set lore. content_len entry = Inr (content_size entry))
       \<and> (\<forall>kvs s. map_of kvs k_content = Some (JStr s) \<longrightarrow> content_size (JObj kvs) = length s)
       \<and> ((\<forall>entry\<in>set staged. \<exists>n. content_len entry = Inr n) \<longrightarrow> (\<exists>s. sort_lore staged = Inr s))
       \<and> (lore_to_inject self sid = Some lore
            \<and> inject_worldbook_context R self sid req = Inr (self', req') \<longrightarrow>
            (\<exists>lore_prompt. lore_loop R lore_sorted s_header = Inr lore_prompt
               \<and> system_prompt req' = lore_prompt @ s_nl @ system_prompt req))"
proof -
  note s = sort_lore_Inr [OF assms]
  have perm: "mset lore_sorted = mset lore"
    by (simp add: s(1) mset_py_sort_reverse)
  have desc: "\<forall>i j. i < j \<and> j < length lore_sorted \<longrightarrow>
      content_size (lore_sorted ! j) \<le> content_size (lore_sorted ! i)"
    unfolding s(1) using py_sort_reverse_descending [of _ _ content_size lore] by blast
  have stable: "\<forall>n. filter (\<lambda>entry. content_size entry = n) lore_sorted
      = filter (\<lambda>entry. content_size entry = n) lore"
    unfolding s(1) by (simp add: py_sort_reverse_stable)
  have chars: "\<forall>kvs s. map_of kvs k_content = Some (JStr s) \<longrightarrow> content_size (JObj kvs) = length s"
    by (simp add: content_size_def content_len_def)
  have returns: "(\<forall>entry\<in>set staged. \<exists>n. content_len entry = Inr n) \<longrightarrow> (\<exists>s. sort_lore staged = Inr s)"
    using sort_lore_returns [of staged] by blast
  have used: "lore_to_inject self sid = Some lore
      \<and> inject_worldbook_context R self sid req = Inr (self', req') \<longrightarrow>
      (\<exists>lore_prompt. lore_loop R lore_sorted s_header = Inr lore_prompt
         \<and> system_prompt req' = lore_prompt @ s_nl @ system_prompt req)"
  proof
    assume a: "lore_to_inject self sid = Some lore
      \<and> inject_worldbook_context R self sid req = Inr (self', req')"
    from inject_staged_Inr [of self sid lore R req self' req'] a assms
    show "\<exists>lore_prompt. lore_loop R lore_sorted s_header = Inr lore_prompt
         \<and> system_prompt req' = lore_prompt @ s_nl @ system_prompt req"
      by auto
  qed
  from perm desc stable s(2) chars returns used show ?thesis
    by blast
qed

theorem sort_lore_stable_descending_witness:
  "sort_lore [rec_C, rec_A, rec_B] = Inr [rec_A, rec_B, rec_C]
   \<and> sort_lore [rec_A, rec_B, rec_C] = Inr [rec_A, rec_B, rec_C]
   \<and> content_size rec_A = 10 \<and> content_size rec_B = 10 \<and> content_size rec_C = 5
   \<and> filter (\<lambda>entry. content_size entry = 10) [rec_A, rec_B, rec_C] = [rec_A, rec_B]
   \<and> filter (\<lambda>entry. content_size entry = 10) [rec_C, rec_A, rec_B] = [rec_A, rec_B]"
  using sort_lore_stable_descending [of "[rec_C, rec_A, rec_B]" "[rec_A, rec_B, rec_C]"]
  by (simp add: sort_lore_def content_len_def content_size_def py_sort_reverse_def
      sample_defs key_defs)

text \<open>
  C5: a request served for a session with a staged list gets as its system prompt the
  block \<open>lore_prompt\<close> (the header, then the section of each record of the sorted list, in
  that order), then a newline, then the system prompt it had; nothing else of the request
  changes. The request is served when every staged record is printable.
\<close>

theorem injection_prepends_block:
  assumes "lore_to_inject self sid = Some lore"
  shows "(inject_worldbook_context R self sid req = Inr (self', req') \<longrightarrow>
            (\<exists>lore_sorted blocks.
               sort_lore lore = Inr lore_sorted
               \<and> list_all2 (\<lambda>entry block. format_entry R entry = Inr block) lore_sorted blocks
               \<and> system_prompt req' = (s_header @ concat blocks) @ [10] @ system_prompt req
               \<and> provider_request.more req' = provider_request.more req))
       \<and> ((\<forall>entry\<in>set lore. printable entry) \<longrightarrow>
            (\<exists>self'' req''. inject_worldbook_context R self sid req = Inr (self'', req'')))"
proof -
  have served: "\<exists>lore_sorted blocks.
               sort_lore lore = Inr lore_sorted
               \<and> list_all2 (\<lambda>entry block. format_entry R entry = Inr block) lore_sorted blocks
               \<and> system_prompt req' = (s_header @ concat blocks) @ [10] @ system_prompt req
               \<and> provider_request.more req' = provider_request.more req"
    if r: "inject_worldbook_context R self sid req = Inr (self', req')"
  proof -
    from inject_staged_Inr [OF assms r] obtain lore_sorted lore_prompt
      where s: "sort_lore lore = Inr lore_sorted"
        and p: "lore_loop R lore_sorted s_header = Inr lore_prompt"
        and req': "req' = req\<lparr>system_prompt := lore_prompt @ s_nl @ system_prompt req\<rparr>"
      by blast
    from lore_loop_Inr [OF p] obtain blocks
      where "list_all2 (\<lambda>entry block. format_entry R entry = Inr block) lore_sorted blocks"
        and "lore_prompt = s_header @ concat blocks"
      by blast
    with s req' show ?thesis
      by (auto simp: s_nl_def)
  qed
  with inject_staged_returns [OF assms, of R req] show ?thesis
    by blast
qed

theorem injection_prepends_block_witness:
  "lore_to_inject ex_staged ex_session = Some [fire_blast]
   \<and> inject_worldbook_context (\<lambda>v. []) ex_staged ex_session ex_request
       = Inr (ex_plugin, \<lparr>system_prompt = ex_block @ [10] @ ascii ''You are a helpful guide.''\<rparr>)
   \<and> system_prompt ex_request = ascii ''You are a helpful guide.''
   \<and> printable fire_blast"
  using injection_prepends_block [of ex_staged ex_session "[fire_blast]" "\<lambda>v. []" ex_request
      ex_plugin "\<lparr>system_prompt = ex_block @ [10] @ ascii ''You are a helpful guide.''\<rparr>"]
  by (simp add: inject_worldbook_context_def sort_lore_def content_len_def py_sort_reverse_def
      load_worldbook_def has_core_fields_def str_int_def digits.simps
      ex_staged_def ex_block_def text_defs sample_defs key_defs)

text \<open>
  C1: injection is exactly-once. A request served for a session with a staged list takes
  the session's entry out of the staging dict and leaves the rest of the dict and the
  store as they were. Until the next message, every further request of the session,
  the one just served or any other, passes through: the call returns the plugin and the
  request as it got them, so the system prompt and the staging dict are unchanged.
\<close>

theorem injection_exactly_once:
  assumes "lore_to_inject self sid = Some lore"
    and "inject_worldbook_context R self sid req = Inr (self', req')"
  shows "lore_to_inject self' sid = None
       \<and> lore_to_inject self' = (lore_to_inject self)(sid := None)
       \<and> worldbook_data self' = worldbook_data self
       \<and> (\<forall>R2 req2. inject_worldbook_context R2 self' sid req2 = Inr (self', req2))"
proof -
  from inject_staged_Inr [OF assms]
  have "self' = self\<lparr>lore_to_inject := (lore_to_inject self)(sid := None)\<rparr>"
    by blast
  then show ?thesis
    by (simp add: inject_worldbook_context_def)
qed

theorem injection_exactly_once_witness:
  "lore_to_inject ex_staged ex_session = Some [fire_blast]
   \<and> inject_worldbook_context (\<lambda>v. []) ex_staged ex_session ex_request
       = Inr (ex_plugin, \<lparr>system_prompt = ex_block @ [10] @ ascii ''You are a helpful guide.''\<rparr>)
   \<and> lore_to_inject ex_plugin ex_session = None
   \<and> inject_worldbook_context (\<lambda>v. []) ex_plugin ex_session
        \<lparr>system_prompt = ex_block @ [10] @ ascii ''You are a helpful guide.''\<rparr>
       = Inr (ex_plugin, \<lparr>system_prompt = ex_block @ [10] @ ascii ''You are a helpful guide.''\<rparr>)
   \<and> inject_worldbook_context (\<lambda>v. []) ex_plugin ex_session ex_request = Inr (ex_plugin, ex_request)
   \<and> inject_worldbook_context (\<lambda>v. ascii ''x'') ex_plugin ex_session \<lparr>system_prompt = []\<rparr>
       = Inr (ex_plugin, \<lparr>system_prompt = []\<rparr>)"
  using injection_exactly_once [of ex_staged ex_session "[fire_blast]" "\<lambda>v. []" ex_request
      ex_plugin "\<lparr>system_prompt = ex_block @ [10] @ ascii ''You are a helpful guide.''\<rparr>"]
  by (simp add: inject_worldbook_context_def sort_lore_def content_len_def py_sort_reverse_def
      load_worldbook_def has_core_fields_def str_int_def digits.simps
      ex_staged_def ex_block_def text_defs sample_defs key_defs)

text \<open>
  C10: the frame of the two handlers. Called for a session, each leaves the staged entry
  of every other session as it was, whether it returns or raises; neither changes the
  store.
\<close>

theorem handlers_frame:
  assumes "sid' \<noteq> sid"
  shows "lore_to_inject (after_message (on_any_message self sid user_message)) sid'
           = lore_to_inject self sid'
       \<and> lore_to_inject (after_inject (inject_worldbook_context R self sid req)) sid'
           = lore_to_inject self sid'
       \<and> worldbook_data (after_inject (inject_worldbook_context R self sid req))
           = worldbook_data self
       \<and> worldbook_data (after_message (on_any_message self sid user_message))
           = worldbook_data self"
  using assms
  by (auto simp: on_any_message_def inject_worldbook_context_def split: sum.splits option.splits)

theorem handlers_frame_witness:
  "ascii ''s2'' \<noteq> ex_session
   \<and> lore_to_inject (after_message (on_any_message ex_two ex_session ex_message)) (ascii ''s2'')
       = Some [rec_A]
   \<and> lore_to_inject (after_inject (inject_worldbook_context (\<lambda>v. []) ex_two ex_session ex_request))
        (ascii ''s2'') = Some [rec_A]
   \<and> lore_to_inject ex_two (ascii ''s2'') = Some [rec_A]"
  using handlers_frame [of "ascii ''s2''" ex_session ex_two ex_message "\<lambda>v. []" ex_request]
  by (simp add: ex_two_def ex_staged_def sample_defs key_defs)

section \<open>The load\<close>

lemma has_core_fields_dict:
  "has_core_fields (JObj kvs)
     = Inr (k_keywords \<in> fst ` set kvs \<and> k_content \<in> fst ` set kvs \<and> k_pet_name \<in> fst ` set kvs)"
  by (auto simp: has_core_fields_def split: bool.splits)

lemma in_update:
  "p \<in> set (AList.update k v al) \<Longrightarrow> p = (k, v) \<or> p \<in> set al"
  by (induction al) (auto split: if_splits)

lemma load_file_core_fields:
  assumes "\<forall>p\<in>set (fst acc). has_core_fields (snd p) = Inr True"
  shows "\<forall>p\<in>set (fst (load_file jfile acc)). has_core_fields (snd p) = Inr True"
proof (cases jfile)
  case (Pair stem parsed)
  obtain wb out where acc: "acc = (wb, out)" by (cases acc)
  show ?thesis
  proof (cases parsed)
    case None
    with Pair acc assms show ?thesis by simp
  next
    case (Some entry)
    with Pair acc assms show ?thesis
      by (auto split: sum.splits bool.splits dest!: in_update)
  qed
qed

lemma fold_load_file_core_fields:
  "\<forall>p\<in>set (fst acc). has_core_fields (snd p) = Inr True
     \<Longrightarrow> \<forall>p\<in>set (fst (fold load_file files acc)). has_core_fields (snd p) = Inr True"
proof (induction files arbitrary: acc)
  case Nil
  then show ?case by simp
next
  case (Cons jfile files)
  from Cons.IH [OF load_file_core_fields [OF Cons.prems]] show ?case
    by simp
qed

lemma load_worldbook_core_fields:
  "\<forall>p\<in>set (fst (load_worldbook dir)). has_core_fields (snd p) = Inr True"
  unfolding load_worldbook_def by (rule fold_load_file_core_fields) simp

text \<open>
  On a dict the test of the three fields is a test of its keys: a parsed dict that lacks
  \<open>keywords\<close>, \<open>content\<close> or \<open>pet_name\<close> is skipped with the warning, no load puts it
  into the store under any name, and no result of \<open>find_entries_in_text\<close> on a loaded
  store holds it.
\<close>

lemma load_skips_dict_without_field:
  assumes "k \<in> {k_keywords, k_content, k_pet_name}" and "k \<notin> fst ` set kvs"
  shows "load_file (stem, Some (JObj kvs)) (wb, out) = (wb, out @ [Skipped stem])
       \<and> (\<forall>entry_name. (entry_name, JObj kvs) \<notin> set (fst (load_worldbook dir)))
       \<and> (\<forall>user_message res. find_entries_in_text (fst (load_worldbook dir)) user_message = Inr res
              \<longrightarrow> JObj kvs \<notin> set res)"
proof -
  from assms have missing: "has_core_fields (JObj kvs) = Inr False"
    by (auto simp: has_core_fields_dict)
  then have skipped: "load_file (stem, Some (JObj kvs)) (wb, out) = (wb, out @ [Skipped stem])"
    by simp
  have stored: "(entry_name, JObj kvs) \<notin> set (fst (load_worldbook dir))" for entry_name
    using load_worldbook_core_fields [of dir] missing by force
  have found: "JObj kvs \<notin> set res"
    if "find_entries_in_text (fst (load_worldbook dir)) user_message = Inr res" for user_message res
    using find_entries_subset [OF that] stored by auto
  from skipped stored found show ?thesis
    by blast
qed

text \<open>
  C6: a record is to enter the store only with the fields \<open>keywords\<close>, \<open>content\<close> and
  \<open>pet_name\<close>, and the comment on the test says that it checks that these fields are
  there. The test is \<open>in\<close>, though, which on a list asks for an element and on a str for
  a substring. A file that holds the list of the three names, or a str with the three
  names in it, has no field at all and passes: the load returns with the value in the
  store, beside a dict without \<open>pet_name\<close> that it skips. No \<open>get\<close> finds a field in the
  stored list, and the search of every message that is not empty raises on it.
\<close>

theorem load_stores_value_without_fields:
  "has_core_fields rec_names_list = Inr True
   \<and> load_worldbook (Some [(ascii ''partial'', Some rec_no_pet_name), (ascii ''names'', Some rec_names_list)])
       = ([(ascii ''names'', rec_names_list)], [Skipped (ascii ''partial''), Loaded (ascii ''names'')])
   \<and> py_get rec_names_list k_keywords (JList []) = Inl AttributeError
   \<and> py_get rec_names_list k_content (JStr []) = Inl AttributeError
   \<and> py_get rec_names_list k_pet_name (JStr s_unknown) = Inl AttributeError
   \<and> find_entries_in_text [(ascii ''names'', rec_names_list)] (ascii ''a'') = Inl AttributeError
   \<and> load_worldbook (Some [(ascii ''names'', Some rec_names_str)])
       = ([(ascii ''names'', rec_names_str)], [Loaded (ascii ''names'')])"
  by (simp add: load_worldbook_def has_core_fields_def find_defs sample_defs key_defs sublist_code)

text \<open>
  C7, as the code has it: the directory is made by the constructor, before the first
  load, and by nothing else. \<open>_load_worldbook\<close> and the reload command leave the
  directory as they find it, so a reload on a directory that has gone does not make it:
  it finds no file and leaves the store empty. The store after either is what the files
  of the directory give, and a reload leaves the staging dict alone.
\<close>

theorem data_dir_made_by_constructor_only:
  "fst (manager_init dir) \<noteq> None
   \<and> rglob_json (fst (manager_init dir)) = rglob_json dir
   \<and> snd (manager_init dir) = fst (load_worldbook dir)
   \<and> fst (reload_worldbook self dir) = dir
   \<and> worldbook_data (fst (snd (reload_worldbook self dir))) = fst (load_worldbook dir)
   \<and> lore_to_inject (fst (snd (reload_worldbook self dir))) = lore_to_inject self
   \<and> worldbook_data (fst (snd (reload_worldbook self None))) = []"
  by (cases dir) (simp_all add: manager_init_def reload_worldbook_def load_worldbook_def)

theorem data_dir_made_by_constructor_only_witness:
  "fst (manager_init None) = Some []
   \<and> snd (manager_init None) = []
   \<and> fst (reload_worldbook ex_staged ex_dir) = ex_dir
   \<and> fst (snd (reload_worldbook ex_staged ex_dir)) = ex_staged"
  using data_dir_made_by_constructor_only [of None ex_staged]
    data_dir_made_by_constructor_only [of ex_dir ex_staged]
  by (simp add: manager_init_def reload_worldbook_def load_worldbook_def has_core_fields_def
      ex_staged_def sample_defs key_defs)

theorem reload_makes_no_dir_counterexample:
  "fst (reload_worldbook ex_staged None) = None
   \<and> worldbook_data (fst (snd (reload_worldbook ex_staged None))) = []"
  by (simp add: reload_worldbook_def load_worldbook_def)

section \<open>Staging\<close>

text \<open>
  C4: staging is last-write-wins. Two messages in a row for one session, the second
  with a non-empty match: whatever the first one staged, the session's staged list after
  the second is what \<open>find_entries_in_text\<close> gives for the second text, and neither call
  changes the store.
\<close>

theorem staging_last_write_wins:
  assumes "on_any_message self sid text1 = Inr self1"
    and "find_entries_in_text (worldbook_data self) text2 = Inr found2"
    and "found2 \<noteq> []"
  shows "\<exists>self2. on_any_message self1 sid text2 = Inr self2
           \<and> lore_to_inject self2 sid = Some found2
           \<and> worldbook_data self2 = worldbook_data self"
proof -
  from assms(1) have wb: "worldbook_data self1 = worldbook_data self"
    by (auto simp: on_any_message_def split: sum.splits if_splits)
  with assms(2,3) show ?thesis
    by (simp add: on_any_message_def)
qed

theorem staging_last_write_wins_witness:
  "on_any_message \<lparr>worldbook_data = ex_abc, lore_to_inject = Map.empty\<rparr> ex_session (ascii ''gamma'')
     = Inr \<lparr>worldbook_data = ex_abc, lore_to_inject = [ex_session \<mapsto> [rec_C]]\<rparr>
   \<and> find_entries_in_text ex_abc (ascii ''alpha'') = Inr [rec_A, rec_B]
   \<and> [rec_A, rec_B] \<noteq> []
   \<and> on_any_message \<lparr>worldbook_data = ex_abc, lore_to_inject = [ex_session \<mapsto> [rec_C]]\<rparr>
        ex_session (ascii ''alpha'')
     = Inr \<lparr>worldbook_data = ex_abc, lore_to_inject = [ex_session \<mapsto> [rec_A, rec_B]]\<rparr>"
  using staging_last_write_wins [of "\<lparr>worldbook_data = ex_abc, lore_to_inject = Map.empty\<rparr>"
      ex_session "ascii ''gamma''"
      "\<lparr>worldbook_data = ex_abc, lore_to_inject = [ex_session \<mapsto> [rec_C]]\<rparr>"
      "ascii ''alpha''" "[rec_A, rec_B]"]
  by (simp add: on_any_message_def find_defs sample_defs key_defs sublist_code)

end
